theory Spec2Isabelle
  imports Main "HOL-Library.Word"
begin

unbundle bit_operations_syntax

section \<open>The PCF85263 real-time-clock driver (drivers/timers/pcf85263.c)\<close>

type_synonym u8 = "8 word"

subsection \<open>BCD codec\<close>

text \<open>
  \<^verbatim>\<open>while (value >= 10) { msbcd++; value -= 10; }\<close> of \<open>rtc_bin2bcd\<close>. The counter
  \<open>msbcd\<close> is a \<open>uint8_t\<close> and wraps at 256; \<open>value\<close> is an \<open>int\<close> that only
  decreases towards 0, so it cannot overflow.
\<close>

function rtc_bin2bcd_loop :: "u8 \<Rightarrow> int \<Rightarrow> u8 \<times> int" where
  "rtc_bin2bcd_loop msbcd v =
     (if v \<ge> 10 then rtc_bin2bcd_loop (msbcd + 1) (v - 10) else (msbcd, v))"
  by pat_completeness auto
termination
  by (relation "measure (\<lambda>(msbcd, v). nat v)") auto

declare rtc_bin2bcd_loop.simps [simp del]

text \<open>
  \<^verbatim>\<open>return (msbcd << 4) | value;\<close>: both operands are promoted to \<open>int\<close>, and the
  result is converted to the \<open>uint8_t\<close> return type (its low 8 bits).
\<close>

definition rtc_bin2bcd :: "int \<Rightarrow> u8" where
  "rtc_bin2bcd v =
     (case rtc_bin2bcd_loop 0 v of
        (msbcd, r) \<Rightarrow> word_of_int (push_bit 4 (uint msbcd) OR r))"

text \<open>
  \<^verbatim>\<open>int tens = ((int)value >> 4) * 10; return tens + (value & 0x0f);\<close>
\<close>

definition rtc_bcd2bin :: "u8 \<Rightarrow> int" where
  "rtc_bcd2bin v =
     (let tens = drop_bit 4 (uint v) * 10
      in tens + (uint v AND 0x0f))"

text \<open>A packed-BCD byte is valid when each nibble holds a decimal digit.\<close>

definition valid_bcd :: "u8 \<Rightarrow> bool" where
  "valid_bcd b \<longleftrightarrow> drop_bit 4 (uint b) \<le> 9 \<and> (uint b AND 0x0f) \<le> 9"

subsection \<open>Data of the driver\<close>

text \<open>
  \<open>struct tm\<close>: the calendar fields the driver reads and writes. \<open>tm_wday\<close>,
  \<open>tm_yday\<close> and \<open>tm_isdst\<close> exist only when \<open>CONFIG_LIBC_LOCALTIME\<close> or
  \<open>CONFIG_TIME_EXTENDED\<close> is set; the driver touches \<open>tm_wday\<close> only then.
\<close>

record tm =
  tm_sec :: int
  tm_min :: int
  tm_hour :: int
  tm_mday :: int
  tm_mon :: int
  tm_year :: int
  tm_wday :: int
  tm_yday :: int
  tm_isdst :: int

text \<open>
  \<open>struct timespec\<close>. The type \<open>time_t\<close> of \<open>tv_sec\<close> is declared in a header
  that is not among the sources, so it is a type parameter here; the driver's functions
  take it to be a machine word of some width, on which \<open>newtime++\<close> wraps.
\<close>

record 'time timespec =
  tv_sec :: 'time
  tv_nsec :: int

text \<open>
  \<open>struct i2c_msg_s\<close>. \<open>buffer_msg\<close> is the field \<open>buffer\<close>: it holds the bytes
  a write message carries to the device; for a read message it is the destination, whose
  previous contents the bus does not see, and is left empty. \<open>length_msg\<close> is the
  field \<open>length\<close>.
\<close>

record i2c_msg_s =
  frequency :: nat
  addr :: nat
  flags :: nat
  buffer_msg :: "u8 list"
  length_msg :: nat

text \<open>
  What a call \<open>I2C_TRANSFER(dev, msgs, count)\<close> gives back: the status, the bytes the
  bus stored into the buffers of the read messages (\<open>rx i j\<close> is byte \<open>j\<close> of the
  buffer of \<open>msgs[i]\<close>), and the new state of the bus. A transfer that succeeds has
  filled every read buffer over its whole length, so after it the locals \<open>buffer\<close> and
  \<open>seconds\<close> of the driver hold exactly these bytes; after a transfer that fails the
  driver returns without reading them.
\<close>

type_synonym 'bus i2c_reply = "int \<times> (nat \<Rightarrow> nat \<Rightarrow> u8) \<times> 'bus"

text \<open>
  Everything the driver takes from outside \<open>pcf85263.c\<close>: the register addresses and
  masks of \<open>pcf85263.h\<close>, the configuration switches, the flag and errno constants, the
  calendar conversions of the C library and the transfer method of the I2C bus. None of
  these is among the sources, so each is a parameter. The masks are applied to register
  bytes and to decoded values below 256, so only their low 8 bits matter and they are
  bytes here. A conversion that returns \<open>NULL\<close> is \<open>None\<close>.
\<close>

record ('time, 'bus) platform =
  PCF85263_RTC_100TH_SECONDS :: u8
  PCF85263_RTC_SECONDS :: u8
  PCF85263_RTC_SECONDS_MASK :: u8
  PCF85263_RTC_MINUTES_MASK :: u8
  PCF85263_RTC_HOURS24_MASK :: u8
  PCF85263_RTC_DAYS_MASK :: u8
  PCF85263_RTC_WEEKDAYS_MASK :: u8
  PCF85263_RTC_MONTHS_MASK :: u8
  CONFIG_PCF85263_I2C_FREQUENCY :: nat
  CONFIG_LIBC_LOCALTIME :: bool
  CONFIG_TIME_EXTENDED :: bool
  I2C_M_READ :: nat
  EAGAIN :: int
  EINVAL :: int
  gmtime_r :: "'time \<Rightarrow> tm option"
  localtime_r :: "'time \<Rightarrow> tm option"
  I2C_TRANSFER :: "'bus \<Rightarrow> i2c_msg_s list \<Rightarrow> 'bus i2c_reply"

text \<open>
  \<open>struct pcf85263_dev_s\<close> and the two globals \<open>g_rtc_enabled\<close> and \<open>g_pcf85263\<close>.
  The field \<open>i2c\<close> stands for the bus behind the stored handle: it holds the state of
  that bus, which every transfer advances.
\<close>

record 'bus pcf85263_dev_s =
  i2c :: 'bus

record 'bus rtc_state =
  g_rtc_enabled :: bool
  g_pcf85263 :: "'bus pcf85263_dev_s"

definition OK :: int where
  "OK = 0"

definition PCF85263_I2C_ADDRESS :: nat where
  "PCF85263_I2C_ADDRESS = 0x51"

text \<open>\<^verbatim>\<open>#if defined(CONFIG_LIBC_LOCALTIME) || defined(CONFIG_TIME_EXTENDED)\<close>\<close>

definition wday_tracked :: "('time, 'bus) platform \<Rightarrow> bool" where
  "wday_tracked p \<longleftrightarrow> CONFIG_LIBC_LOCALTIME p \<or> CONFIG_TIME_EXTENDED p"

subsection \<open>pcf85263\_rtc\_initialize\<close>

definition pcf85263_rtc_initialize ::
  "'bus \<Rightarrow> 'bus rtc_state \<Rightarrow> int \<times> 'bus rtc_state" where
  "pcf85263_rtc_initialize dev st =
     (OK, st\<lparr>g_pcf85263 := \<lparr>i2c = dev\<rparr>, g_rtc_enabled := True\<rparr>)"

subsection \<open>up\_rtc\_getdatetime\<close>

text \<open>The four messages set up before the loop.\<close>

definition getdatetime_msg :: "('time, 'bus) platform \<Rightarrow> i2c_msg_s list" where
  "getdatetime_msg p =
     (let secaddr = PCF85263_RTC_SECONDS p in
      [\<lparr>frequency = CONFIG_PCF85263_I2C_FREQUENCY p, addr = PCF85263_I2C_ADDRESS,
        flags = 0, buffer_msg = [secaddr], length_msg = 1\<rparr>,
       \<lparr>frequency = CONFIG_PCF85263_I2C_FREQUENCY p, addr = PCF85263_I2C_ADDRESS,
        flags = I2C_M_READ p, buffer_msg = [], length_msg = 7\<rparr>,
       \<lparr>frequency = CONFIG_PCF85263_I2C_FREQUENCY p, addr = PCF85263_I2C_ADDRESS,
        flags = 0, buffer_msg = [secaddr], length_msg = 1\<rparr>,
       \<lparr>frequency = CONFIG_PCF85263_I2C_FREQUENCY p, addr = PCF85263_I2C_ADDRESS,
        flags = I2C_M_READ p, buffer_msg = [], length_msg = 1\<rparr>])"

text \<open>
  The \<open>do \<dots> while\<close> loop. It has no bound, so the function is partial: \<open>None\<close>
  means it never leaves the loop. \<open>Inl\<close> is the early \<open>return ret\<close>; \<open>Inr\<close>
  leaves the loop with the local \<open>buffer\<close> (the 7 bytes of message 1) and \<open>seconds\<close>
  (the byte of message 3).
\<close>

partial_function (option) getdatetime_loop ::
  "('time, 'bus) platform \<Rightarrow> i2c_msg_s list \<Rightarrow> 'bus \<Rightarrow>
     (int \<times> 'bus + (nat \<Rightarrow> u8) \<times> u8 \<times> 'bus) option" where
  "getdatetime_loop p msg bus =
     (case I2C_TRANSFER p bus msg of
        (ret, rx, bus') \<Rightarrow>
          if ret < 0 then Some (Inl (ret, bus'))
          else
            let buffer = rx 1; seconds = rx 3 0 in
            if (buffer 0 AND PCF85263_RTC_SECONDS_MASK p) >
               (seconds AND PCF85263_RTC_SECONDS_MASK p)
            then getdatetime_loop p msg bus'
            else Some (Inr (buffer, seconds, bus')))"

text \<open>The assignments to \<open>*tp\<close> after the loop ("Format the return time").\<close>

definition getdatetime_format ::
  "('time, 'bus) platform \<Rightarrow> (nat \<Rightarrow> u8) \<Rightarrow> tm \<Rightarrow> tm" where
  "getdatetime_format p buffer tp =
     (let tp = tp\<lparr>tm_sec := rtc_bcd2bin (buffer 0 AND PCF85263_RTC_SECONDS_MASK p)\<rparr>;
          tp = tp\<lparr>tm_min := rtc_bcd2bin (buffer 1 AND PCF85263_RTC_MINUTES_MASK p)\<rparr>;
          tp = tp\<lparr>tm_hour := rtc_bcd2bin (buffer 2 AND PCF85263_RTC_HOURS24_MASK p)\<rparr>;
          tp = tp\<lparr>tm_mday := rtc_bcd2bin (buffer 3 AND PCF85263_RTC_DAYS_MASK p)\<rparr>;
          tp = (if wday_tracked p
                then tp\<lparr>tm_wday :=
                       rtc_bcd2bin (buffer 4) AND uint (PCF85263_RTC_WEEKDAYS_MASK p)\<rparr>
                else tp);
          tp = tp\<lparr>tm_mon := rtc_bcd2bin (buffer 5 AND PCF85263_RTC_MONTHS_MASK p) - 1\<rparr>;
          tp = tp\<lparr>tm_year := rtc_bcd2bin (buffer 6) + 68\<rparr>
      in tp)"

text \<open>The epoch written to \<open>*tp\<close> when the RTC is not enabled.\<close>

definition getdatetime_epoch :: "('time, 'bus) platform \<Rightarrow> tm \<Rightarrow> tm" where
  "getdatetime_epoch p tp =
     (let tp = tp\<lparr>tm_sec := 0\<rparr>;
          tp = tp\<lparr>tm_min := 0\<rparr>;
          tp = tp\<lparr>tm_hour := 0\<rparr>;
          tp = (if wday_tracked p then tp\<lparr>tm_wday := 4\<rparr> else tp);
          tp = tp\<lparr>tm_mday := 1\<rparr>;
          tp = tp\<lparr>tm_mon := 0\<rparr>;
          tp = tp\<lparr>tm_year := 70\<rparr>
      in tp)"

text \<open>
  \<open>up_rtc_getdatetime(tp)\<close>: takes the globals and the contents of \<open>*tp\<close>, and gives
  the returned status, the new contents of \<open>*tp\<close> and the new globals.
\<close>

definition up_rtc_getdatetime ::
  "('time, 'bus) platform \<Rightarrow> 'bus rtc_state \<Rightarrow> tm \<Rightarrow> (int \<times> tm \<times> 'bus rtc_state) option" where
  "up_rtc_getdatetime p st tp =
     (if \<not> g_rtc_enabled st then Some (- EAGAIN p, getdatetime_epoch p tp, st)
      else
        case getdatetime_loop p (getdatetime_msg p) (i2c (g_pcf85263 st)) of
          None \<Rightarrow> None
        | Some (Inl (ret, bus')) \<Rightarrow> Some (ret, tp, st\<lparr>g_pcf85263 := \<lparr>i2c = bus'\<rparr>\<rparr>)
        | Some (Inr (buffer, seconds, bus')) \<Rightarrow>
            Some (OK, getdatetime_format p buffer tp, st\<lparr>g_pcf85263 := \<lparr>i2c = bus'\<rparr>\<rparr>))"

subsection \<open>up\_rtc\_settime\<close>

text \<open>The 9 bytes of \<open>buffer\<close> built from the broken-out time ("Construct the message").\<close>

definition settime_buffer :: "('time, 'bus) platform \<Rightarrow> tm \<Rightarrow> u8 list" where
  "settime_buffer p newtm =
     [PCF85263_RTC_100TH_SECONDS p,
      0,
      rtc_bin2bcd (tm_sec newtm),
      rtc_bin2bcd (tm_min newtm),
      rtc_bin2bcd (tm_hour newtm),
      rtc_bin2bcd (tm_mday newtm),
      (if wday_tracked p then rtc_bin2bcd (tm_wday newtm) else 0),
      rtc_bin2bcd (tm_mon newtm + 1),
      rtc_bin2bcd (tm_year newtm - 68)]"

definition settime_msg :: "('time, 'bus) platform \<Rightarrow> u8 list \<Rightarrow> i2c_msg_s list" where
  "settime_msg p buffer =
     (let cmd = PCF85263_RTC_SECONDS p in
      [\<lparr>frequency = CONFIG_PCF85263_I2C_FREQUENCY p, addr = PCF85263_I2C_ADDRESS,
        flags = 0, buffer_msg = buffer, length_msg = 9\<rparr>,
       \<lparr>frequency = CONFIG_PCF85263_I2C_FREQUENCY p, addr = PCF85263_I2C_ADDRESS,
        flags = 0, buffer_msg = [cmd], length_msg = 1\<rparr>,
       \<lparr>frequency = CONFIG_PCF85263_I2C_FREQUENCY p, addr = PCF85263_I2C_ADDRESS,
        flags = I2C_M_READ p, buffer_msg = [], length_msg = 1\<rparr>])"

text \<open>
  The \<open>do \<dots> while\<close> loop of \<open>up_rtc_settime\<close>; \<open>buf2\<close> is \<open>buffer[2]\<close>, the
  seconds byte of the message. The result is the returned status and the new bus state.
\<close>

partial_function (option) settime_loop ::
  "('time, 'bus) platform \<Rightarrow> i2c_msg_s list \<Rightarrow> u8 \<Rightarrow> 'bus \<Rightarrow> (int \<times> 'bus) option" where
  "settime_loop p msg buf2 bus =
     (case I2C_TRANSFER p bus msg of
        (ret, rx, bus') \<Rightarrow>
          if ret < 0 then Some (ret, bus')
          else
            let seconds = rx 2 0 in
            if (buf2 AND PCF85263_RTC_SECONDS_MASK p) >
               (seconds AND PCF85263_RTC_SECONDS_MASK p)
            then settime_loop p msg buf2 bus'
            else Some (OK, bus'))"

text \<open>\<^verbatim>\<open>newtime = (time_t)tp->tv_sec; if (tp->tv_nsec >= 500000000) newtime++;\<close>\<close>

definition settime_newtime :: "('t::len) word timespec \<Rightarrow> 't word" where
  "settime_newtime tp =
     (let newtime = tv_sec tp
      in if tv_nsec tp \<ge> 500000000 then newtime + 1 else newtime)"

text \<open>
  \<^verbatim>\<open>#ifdef CONFIG_LIBC_LOCALTIME\<close> \<open>localtime_r(&newtime, &newtm)\<close> \<^verbatim>\<open>#else\<close>
  \<open>gmtime_r(&newtime, &newtm)\<close>.
\<close>

definition settime_calendar :: "('time, 'bus) platform \<Rightarrow> 'time \<Rightarrow> tm option" where
  "settime_calendar p newtime =
     (if CONFIG_LIBC_LOCALTIME p then localtime_r p newtime else gmtime_r p newtime)"

definition up_rtc_settime ::
  "(('t::len) word, 'bus) platform \<Rightarrow> 'bus rtc_state \<Rightarrow> 't word timespec \<Rightarrow>
     (int \<times> 'bus rtc_state) option" where
  "up_rtc_settime p st tp =
     (if \<not> g_rtc_enabled st then Some (- EAGAIN p, st)
      else
        let newtime = settime_newtime tp in
        case settime_calendar p newtime of
          None \<Rightarrow> Some (- EINVAL p, st)
        | Some newtm \<Rightarrow>
            let buffer = settime_buffer p newtm in
            case settime_loop p (settime_msg p buffer) (buffer ! 2) (i2c (g_pcf85263 st)) of
              None \<Rightarrow> None
            | Some (ret, bus') \<Rightarrow> Some (ret, st\<lparr>g_pcf85263 := \<lparr>i2c = bus'\<rparr>\<rparr>))"

section \<open>Vocabulary of the properties\<close>

subsection \<open>Sequences of transfers\<close>

text \<open>
  Both loops repeat one fixed message array. \<open>i2c_after p msg n bus\<close> is the bus after
  \<open>n\<close> transfers of \<open>msg\<close> starting from \<open>bus\<close>, and \<open>i2c_reply_at p msg n bus\<close>
  is what transfer number \<open>n\<close> (counted from 0) gives back.
\<close>

primrec i2c_after :: "('time, 'bus) platform \<Rightarrow> i2c_msg_s list \<Rightarrow> nat \<Rightarrow> 'bus \<Rightarrow> 'bus" where
  "i2c_after p msg 0 bus = bus"
| "i2c_after p msg (Suc n) bus = i2c_after p msg n (snd (snd (I2C_TRANSFER p bus msg)))"

definition i2c_reply_at ::
  "('time, 'bus) platform \<Rightarrow> i2c_msg_s list \<Rightarrow> nat \<Rightarrow> 'bus \<Rightarrow> 'bus i2c_reply" where
  "i2c_reply_at p msg n bus = I2C_TRANSFER p (i2c_after p msg n bus) msg"

text \<open>
  A transfer of \<open>up_rtc_getdatetime\<close> that succeeded and whose seconds-only sample,
  masked, is smaller than the masked seconds of the bulk read.
\<close>

definition getdatetime_rollover :: "('time, 'bus) platform \<Rightarrow> 'bus i2c_reply \<Rightarrow> bool" where
  "getdatetime_rollover p r =
     (case r of (ret, rx, bus') \<Rightarrow>
        0 \<le> ret \<and>
        (rx 3 0 AND PCF85263_RTC_SECONDS_MASK p) < (rx 1 0 AND PCF85263_RTC_SECONDS_MASK p))"

text \<open>
  A transfer of \<open>up_rtc_settime\<close> that succeeded and whose read-back seconds, masked,
  are smaller than the masked seconds byte \<open>written\<close>.
\<close>

definition settime_rollover :: "('time, 'bus) platform \<Rightarrow> u8 \<Rightarrow> 'bus i2c_reply \<Rightarrow> bool" where
  "settime_rollover p written r =
     (case r of (ret, rx, bus') \<Rightarrow>
        0 \<le> ret \<and>
        (rx 2 0 AND PCF85263_RTC_SECONDS_MASK p) < (written AND PCF85263_RTC_SECONDS_MASK p))"

text \<open>
  How each loop ends on a reply \<open>r\<close>: with the early return on a negative status, or
  past the loop condition on a reply that is not a rollover.
\<close>

definition getdatetime_last ::
  "('time, 'bus) platform \<Rightarrow> 'bus i2c_reply \<Rightarrow>
     (int \<times> 'bus + (nat \<Rightarrow> u8) \<times> u8 \<times> 'bus) \<Rightarrow> bool" where
  "getdatetime_last p r y =
     (case r of (ret, rx, bus') \<Rightarrow>
        (ret < 0 \<and> y = Inl (ret, bus')) \<or>
        (0 \<le> ret \<and>
         (rx 1 0 AND PCF85263_RTC_SECONDS_MASK p) \<le> (rx 3 0 AND PCF85263_RTC_SECONDS_MASK p) \<and>
         y = Inr (rx 1, rx 3 0, bus')))"

definition settime_last ::
  "('time, 'bus) platform \<Rightarrow> u8 \<Rightarrow> 'bus i2c_reply \<Rightarrow> (int \<times> 'bus) \<Rightarrow> bool" where
  "settime_last p written r y =
     (case r of (ret, rx, bus') \<Rightarrow>
        (ret < 0 \<and> y = (ret, bus')) \<or>
        (0 \<le> ret \<and>
         (written AND PCF85263_RTC_SECONDS_MASK p) \<le> (rx 2 0 AND PCF85263_RTC_SECONDS_MASK p) \<and>
         y = (OK, bus')))"

subsection \<open>A scripted bus\<close>

text \<open>
  A simulated transport that answers each transfer with the next entry of a script (a
  status and the bytes of each message's buffer) and records the message arrays it was
  given. When the script is used up it answers with status \<open>-1\<close>.
\<close>

record script_bus =
  replies :: "(int \<times> u8 list list) list"
  transfers :: "i2c_msg_s list list"

definition rx_of :: "u8 list list \<Rightarrow> nat \<Rightarrow> nat \<Rightarrow> u8" where
  "rx_of xs i j = (if i < length xs \<and> j < length (xs ! i) then xs ! i ! j else 0)"

definition script_transfer :: "script_bus \<Rightarrow> i2c_msg_s list \<Rightarrow> script_bus i2c_reply" where
  "script_transfer b msgs =
     (case replies b of
        [] \<Rightarrow> (- 1, rx_of [], b\<lparr>transfers := transfers b @ [msgs]\<rparr>)
      | (ret, xs) # rs \<Rightarrow> (ret, rx_of xs, \<lparr>replies = rs, transfers = transfers b @ [msgs]\<rparr>))"

subsection \<open>A bus with a register file behind it\<close>






subsection \<open>Calendar conversion\<close>

text \<open>
  Modelled from the spec: the conversion \<open>gmtime_r\<close> of the C library, which is not among
  the sources. The spec has \<open>up_rtc_settime\<close> "convert to broken-down time using the
  calendar convention configured for the process (local or UTC)", with seconds in [0,59],
  minutes in [0,59], hours in [0,23], day-of-month in [1,31], zero-based month in [0,11],
  the year as an offset (from 1900) and the day-of-week in [0,6]. This is the UTC
  conversion of a count of seconds since 00:00:00, 1 Jan 1970 (a Thursday) in the
  Gregorian calendar.
\<close>

definition utc_calendar :: "int \<Rightarrow> tm" where
  "utc_calendar t =
     (let days = t div 86400;
          secs = t mod 86400;
          z = days + 719468;
          era = z div 146097;
          doe = z mod 146097;
          yoe = (doe - doe div 1460 + doe div 36524 - doe div 146096) div 365;
          doy = doe - (365 * yoe + yoe div 4 - yoe div 100);
          mp = (5 * doy + 2) div 153;
          d = doy - (153 * mp + 2) div 5 + 1;
          m = (if mp < 10 then mp + 3 else mp - 9);
          y = yoe + era * 400 + (if m \<le> 2 then 1 else 0);
          leap = (if y mod 4 = 0 \<and> (y mod 100 \<noteq> 0 \<or> y mod 400 = 0) then 1 else 0)
      in \<lparr>tm_sec = secs mod 60,
          tm_min = (secs div 60) mod 60,
          tm_hour = secs div 3600,
          tm_mday = d,
          tm_mon = m - 1,
          tm_year = y - 1900,
          tm_wday = (days + 4) mod 7,
          tm_yday = (if m \<le> 2 then doy - 306 else doy + 59 + leap),
          tm_isdst = 0\<rparr>)"

definition gmtime_utc :: "('t::len) word \<Rightarrow> tm option" where
  "gmtime_utc t = Some (utc_calendar (uint t))"

subsection \<open>A concrete platform\<close>

text \<open>
  The register map of the PCF85263A (seconds at address 1 after the hundredths at 0; value
  bits 0-6 for seconds and minutes, 0-5 for hours and days, 0-2 for weekdays, 0-4 for
  months), the UTC conversion above, and the errno and flag numbers 11, 22 and 1. The two
  arguments choose the weekday configuration and the bus.
\<close>

definition pcf85263a ::
  "bool \<Rightarrow> ('bus \<Rightarrow> i2c_msg_s list \<Rightarrow> 'bus i2c_reply) \<Rightarrow> (('t::len) word, 'bus) platform" where
  "pcf85263a extended xfer =
     \<lparr>PCF85263_RTC_100TH_SECONDS = 0x00,
      PCF85263_RTC_SECONDS = 0x01,
      PCF85263_RTC_SECONDS_MASK = 0x7f,
      PCF85263_RTC_MINUTES_MASK = 0x7f,
      PCF85263_RTC_HOURS24_MASK = 0x3f,
      PCF85263_RTC_DAYS_MASK = 0x3f,
      PCF85263_RTC_WEEKDAYS_MASK = 0x07,
      PCF85263_RTC_MONTHS_MASK = 0x1f,
      CONFIG_PCF85263_I2C_FREQUENCY = 400000,
      CONFIG_LIBC_LOCALTIME = False,
      CONFIG_TIME_EXTENDED = extended,
      I2C_M_READ = 1,
      EAGAIN = 11,
      EINVAL = 22,
      gmtime_r = gmtime_utc,
      localtime_r = gmtime_utc,
      I2C_TRANSFER = xfer\<rparr>"



text \<open>
  The increment \<open>newtime++\<close> of the rounding does not overflow \<open>time_t\<close>, whether
  \<open>time_t\<close> is read as unsigned or as signed: when the nanoseconds are at least
  500000000, \<open>tv_sec\<close> is not the largest value of either reading, so that
  \<open>tv_sec + 1\<close> is the next second.
\<close>

definition newtime_fits :: "('t::len) word timespec \<Rightarrow> bool" where
  "newtime_fits ts \<longleftrightarrow>
     (500000000 \<le> tv_nsec ts \<longrightarrow>
        uint (tv_sec ts) + 1 < 2 ^ LENGTH('t) \<and>
        sint (tv_sec ts) + 1 < 2 ^ (LENGTH('t) - 1))"


subsection \<open>Inputs of the examples\<close>

text \<open>An output structure whose every field holds a value no calendar field can take.\<close>

definition stale_tm :: tm where
  "stale_tm =
     \<lparr>tm_sec = - 1, tm_min = - 1, tm_hour = - 1, tm_mday = - 1, tm_mon = - 1,
      tm_year = - 1, tm_wday = - 1, tm_yday = - 1, tm_isdst = - 1\<rparr>"

text \<open>The globals after \<open>pcf85263_rtc_initialize\<close> on a bus, and before it.\<close>

definition enabled_on :: "'bus \<Rightarrow> 'bus rtc_state" where
  "enabled_on bus = \<lparr>g_rtc_enabled = True, g_pcf85263 = \<lparr>i2c = bus\<rparr>\<rparr>"

definition disabled_on :: "'bus \<Rightarrow> 'bus rtc_state" where
  "disabled_on bus = \<lparr>g_rtc_enabled = False, g_pcf85263 = \<lparr>i2c = bus\<rparr>\<rparr>"

definition script :: "(int \<times> u8 list list) list \<Rightarrow> script_bus" where
  "script rs = \<lparr>replies = rs, transfers = []\<rparr>"



text \<open>
  The platform of the examples on the scripted bus, with the weekday tracked and a 32-bit
  \<open>time_t\<close>.
\<close>

definition scripted :: "(32 word, script_bus) platform" where
  "scripted = pcf85263a True script_transfer"

text \<open>
  Replies to the four messages of \<open>up_rtc_getdatetime\<close>: a bulk read of 23:59:59 on
  Friday 31 Dec 1999 followed by a seconds-only read of 00, and a bulk read of 00:00:00
  on Saturday 1 Jan 2000 followed by a seconds-only read of 00.
\<close>

definition read_2359_then_00 :: "u8 list list" where
  "read_2359_then_00 = [[], [0x59, 0x59, 0x23, 0x31, 0x05, 0x12, 0x31], [], [0x00]]"


section \<open>Proofs\<close>

subsection \<open>Facts about the codec\<close>

lemma rtc_bin2bcd_loop_small: "v < 10 \<Longrightarrow> rtc_bin2bcd_loop m v = (m, v)"
  by (subst rtc_bin2bcd_loop.simps) simp

lemma rtc_bin2bcd_loop_closed:
  "0 \<le> v \<Longrightarrow> rtc_bin2bcd_loop m v = (m + word_of_int (v div 10), v mod 10)"
proof (induction m v rule: rtc_bin2bcd_loop.induct)
  case (1 msbcd v)
  show ?case
  proof (cases "v \<ge> 10")
    case True
    then have ih: "rtc_bin2bcd_loop (msbcd + 1) (v - 10) =
        (msbcd + 1 + word_of_int ((v - 10) div 10), (v - 10) mod 10)"
      using "1.IH" by simp
    have d: "(v - 10) div 10 = v div 10 - 1"
      using div_mult_self3 [of 10 v "-1"] by simp
    have m: "(v - 10) mod 10 = v mod 10"
      using mod_mult_self1 [of v "-1" 10] by simp
    have "rtc_bin2bcd_loop msbcd v = rtc_bin2bcd_loop (msbcd + 1) (v - 10)"
      using True by (subst rtc_bin2bcd_loop.simps) simp
    then show ?thesis
      by (simp add: ih d m)
  next
    case False
    with "1.prems" have "v div 10 = 0" "v mod 10 = v" by simp_all
    with False show ?thesis by (simp add: rtc_bin2bcd_loop_small)
  qed
qed

lemma push4_or_add: "0 \<le> r \<Longrightarrow> r < 16 \<Longrightarrow> push_bit 4 d OR r = 16 * d + (r::int)"
proof -
  assume "0 \<le> r" "r < 16"
  then have r: "take_bit 4 r = r" by (simp add: take_bit_int_eq_self)
  have "push_bit 4 d + take_bit 4 r = push_bit 4 d OR take_bit 4 r"
    by (rule disjunctive_add) (auto simp: bit_push_bit_iff bit_take_bit_iff)
  then show ?thesis by (simp add: r push_bit_eq_mult)
qed

lemma and15_mod: "(x::int) AND 0x0f = x mod 16"
proof -
  have "(0x0f::int) = mask 4" by (simp add: mask_eq_exp_minus_1)
  then have "x AND 0x0f = take_bit 4 x" by (simp add: take_bit_eq_mask)
  then show ?thesis by (simp add: take_bit_eq_mod)
qed

lemma rtc_bcd2bin_alt: "rtc_bcd2bin b = 10 * (uint b div 16) + uint b mod 16"
  by (simp add: rtc_bcd2bin_def Let_def and15_mod drop_bit_eq_div)

lemma valid_bcd_alt: "valid_bcd b \<longleftrightarrow> uint b div 16 \<le> 9 \<and> uint b mod 16 \<le> 9"
  by (simp add: valid_bcd_def and15_mod drop_bit_eq_div)

lemma rtc_bin2bcd_uint:
  assumes "0 \<le> v" "v < 160"
  shows "uint (rtc_bin2bcd v) = 16 * (v div 10) + v mod 10"
proof -
  let ?d = "v div 10" and ?r = "v mod 10"
  have d: "0 \<le> ?d" "?d < 16" using assms by simp_all
  have r: "0 \<le> ?r" "?r < 10" by simp_all
  have ud: "uint (word_of_int ?d :: u8) = ?d"
    using d by (simp add: uint_word_of_int)
  have e1: "rtc_bin2bcd v = word_of_int (push_bit 4 ?d OR ?r)"
    using assms by (simp add: rtc_bin2bcd_def rtc_bin2bcd_loop_closed ud)
  have e2: "push_bit 4 ?d OR ?r = 16 * ?d + ?r"
    using r by (intro push4_or_add) simp_all
  have "uint (rtc_bin2bcd v) = (16 * ?d + ?r) mod 2 ^ LENGTH(8)"
    unfolding e1 e2 by (rule uint_word_of_int)
  then have "uint (rtc_bin2bcd v) = (16 * ?d + ?r) mod 256"
    by simp
  moreover have "0 \<le> 16 * ?d + ?r" "16 * ?d + ?r < 256" using d r by linarith+
  ultimately show ?thesis by simp
qed

lemma nibbles_div: "0 \<le> r \<Longrightarrow> r < 16 \<Longrightarrow> (16 * d + r) div 16 = (d::int)"
  by simp
lemma nibbles_mod: "0 \<le> r \<Longrightarrow> r < 16 \<Longrightarrow> (16 * d + r) mod 16 = (r::int)"
  by simp

lemma rtc_bcd2bin_bin2bcd:
  assumes "0 \<le> v" "v < 160"
  shows "rtc_bcd2bin (rtc_bin2bcd v) = v"
proof -
  have r: "0 \<le> v mod 10" "v mod 10 < 16"
    using pos_mod_bound [of 10 v] by simp_all
  show ?thesis
    using r by (simp add: rtc_bcd2bin_alt rtc_bin2bcd_uint assms nibbles_div nibbles_mod)
qed

lemma rtc_bin2bcd_bcd2bin:
  assumes "valid_bcd b"
  shows "rtc_bin2bcd (rtc_bcd2bin b) = b"
proof -
  let ?h = "uint b div 16" and ?l = "uint b mod 16"
  have h: "0 \<le> ?h" "?h \<le> 9" and l: "0 \<le> ?l" "?l \<le> 9"
    using assms by (simp_all add: valid_bcd_alt pos_imp_zdiv_nonneg_iff)
  let ?v = "10 * ?h + ?l"
  have v: "0 \<le> ?v" "?v < 160" using h l by linarith+
  have dv: "?v div 10 = ?h" using l by simp
  have mv: "?v mod 10 = ?l" using l by simp
  have "uint (rtc_bin2bcd ?v) = 16 * ?h + ?l"
    using rtc_bin2bcd_uint [OF v] by (simp only: dv mv)
  also have "\<dots> = uint b" by simp
  finally show ?thesis by (simp add: rtc_bcd2bin_alt word_uint_eq_iff)
qed

lemma rtc_bcd2bin_range:
  assumes "valid_bcd b"
  shows "0 \<le> rtc_bcd2bin b \<and> rtc_bcd2bin b \<le> 99"
proof -
  have "0 \<le> uint b div 16" "uint b div 16 \<le> 9" "0 \<le> uint b mod 16" "uint b mod 16 \<le> 9"
    using assms by (simp_all add: valid_bcd_alt pos_imp_zdiv_nonneg_iff)
  then show ?thesis unfolding rtc_bcd2bin_alt by linarith
qed

lemma valid_bcd_bin2bcd:
  assumes "0 \<le> v" "v \<le> 99"
  shows "valid_bcd (rtc_bin2bcd v)"
proof -
  have r: "0 \<le> v mod 10" "v mod 10 < 10" by simp_all
  have d: "v div 10 \<le> 9" using assms by simp
  have "v < 160" using assms by simp
  with assms r d show ?thesis
    by (simp add: valid_bcd_alt rtc_bin2bcd_uint nibbles_div nibbles_mod)
qed

subsection \<open>The codec round trips\<close>

text \<open>
  C1: for every integer \<open>v\<close> in [0,99], decoding the BCD byte produced by encoding \<open>v\<close>
  returns \<open>v\<close>: \<open>rtc_bcd2bin (rtc_bin2bcd v) = v\<close>.
\<close>

theorem bcd_decode_encode:
  "0 \<le> v \<Longrightarrow> v \<le> 99 \<Longrightarrow> rtc_bcd2bin (rtc_bin2bcd v) = v"
  by (rule rtc_bcd2bin_bin2bcd) simp_all

theorem bcd_decode_encode_witness:
  "(0::int) \<le> 59 \<and> (59::int) \<le> 99 \<and> rtc_bcd2bin (rtc_bin2bcd 59) = 59"
  using bcd_decode_encode [of 59] by simp

text \<open>
  C10: for every valid packed-BCD byte \<open>b\<close> (both nibbles at most 9), \<open>rtc_bcd2bin b\<close>
  lies in [0,99] and \<open>rtc_bin2bcd (rtc_bcd2bin b) = b\<close>; every \<open>v\<close> in [0,99] encodes
  to a valid byte that decodes to \<open>v\<close>; so the two functions are mutually inverse
  bijections between the integers [0,99] and the valid packed-BCD bytes.
\<close>

theorem bcd_codec_bijection:
  "(\<forall>b. valid_bcd b \<longrightarrow>
        0 \<le> rtc_bcd2bin b \<and> rtc_bcd2bin b \<le> 99 \<and> rtc_bin2bcd (rtc_bcd2bin b) = b) \<and>
   (\<forall>v\<in>{0..99}. valid_bcd (rtc_bin2bcd v) \<and> rtc_bcd2bin (rtc_bin2bcd v) = v) \<and>
   bij_betw rtc_bin2bcd {0..99} {b. valid_bcd b} \<and>
   bij_betw rtc_bcd2bin {b. valid_bcd b} {0..99}"
proof -
  have dec_enc: "\<forall>b\<in>{b. valid_bcd b}. rtc_bin2bcd (rtc_bcd2bin b) = b"
    by (simp add: rtc_bin2bcd_bcd2bin)
  have enc_dec: "\<forall>v\<in>{0..99}. rtc_bcd2bin (rtc_bin2bcd v) = v"
    by (simp add: rtc_bcd2bin_bin2bcd)
  have enc: "rtc_bin2bcd ` {0..99} \<subseteq> {b. valid_bcd b}"
    by (auto simp: valid_bcd_bin2bcd)
  have dec: "rtc_bcd2bin ` {b. valid_bcd b} \<subseteq> {0..99}"
    using rtc_bcd2bin_range by auto
  have b1: "bij_betw rtc_bin2bcd {0..99} {b. valid_bcd b}"
    by (rule bij_betw_byWitness [OF enc_dec dec_enc enc dec])
  have b2: "bij_betw rtc_bcd2bin {b. valid_bcd b} {0..99}"
    by (rule bij_betw_byWitness [OF dec_enc enc_dec dec enc])
  show ?thesis
    using b1 b2 enc_dec rtc_bcd2bin_range rtc_bin2bcd_bcd2bin valid_bcd_bin2bcd by simp
qed

theorem bcd_codec_bijection_witness:
  "valid_bcd 0x59 \<and> rtc_bcd2bin 0x59 = 59 \<and> rtc_bin2bcd (rtc_bcd2bin 0x59) = 0x59"
proof -
  have v: "valid_bcd 0x59"
    by (simp add: valid_bcd_def)
  have d: "rtc_bcd2bin 0x59 = 59"
    by (simp add: rtc_bcd2bin_def)
  from bcd_codec_bijection have "valid_bcd 0x59 \<longrightarrow> rtc_bin2bcd (rtc_bcd2bin 0x59) = 0x59"
    by blast
  with v d show ?thesis by simp
qed

subsection \<open>Facts about sequences of transfers\<close>

lemma i2c_reply_at_Suc:
  "i2c_reply_at p msg (Suc n) bus = i2c_reply_at p msg n (snd (snd (I2C_TRANSFER p bus msg)))"
  by (simp add: i2c_reply_at_def)

lemma rollover_prefix_Suc:
  assumes "P (i2c_reply_at p msg 0 bus)"
    and "\<forall>i<n. P (i2c_reply_at p msg i (snd (snd (I2C_TRANSFER p bus msg))))"
  shows "\<forall>i<Suc n. P (i2c_reply_at p msg i bus)"
proof (intro allI impI)
  fix i assume "i < Suc n"
  then show "P (i2c_reply_at p msg i bus)"
    using assms by (cases i) (simp_all add: i2c_reply_at_Suc)
qed

lemma rollover_prefix_tail:
  assumes "\<forall>i<Suc n. P (i2c_reply_at p msg i bus)"
  shows "\<forall>i<n. P (i2c_reply_at p msg i (snd (snd (I2C_TRANSFER p bus msg))))"
  using assms by (auto simp: i2c_reply_at_Suc [symmetric])

subsection \<open>The loop of up\_rtc\_getdatetime\<close>

lemma getdatetime_loop_step:
  assumes "getdatetime_rollover p (I2C_TRANSFER p bus msg)"
  shows "getdatetime_loop p msg bus =
         getdatetime_loop p msg (snd (snd (I2C_TRANSFER p bus msg)))"
  using assms
  by (subst getdatetime_loop.simps)
     (simp add: getdatetime_rollover_def Let_def split: prod.splits)

lemma getdatetime_loop_last:
  assumes "getdatetime_last p (I2C_TRANSFER p bus msg) y"
  shows "getdatetime_loop p msg bus = Some y"
  using assms
  by (subst getdatetime_loop.simps)
     (auto simp: getdatetime_last_def Let_def split: prod.splits)

lemma getdatetime_loop_run:
  assumes "\<forall>i<n. getdatetime_rollover p (i2c_reply_at p msg i bus)"
    and "getdatetime_last p (i2c_reply_at p msg n bus) y"
  shows "getdatetime_loop p msg bus = Some y"
  using assms
proof (induction n arbitrary: bus)
  case 0
  then show ?case by (simp add: i2c_reply_at_def getdatetime_loop_last)
next
  case (Suc n)
  let ?b = "snd (snd (I2C_TRANSFER p bus msg))"
  from Suc.prems(1) have "getdatetime_rollover p (i2c_reply_at p msg 0 bus)" by blast
  then have "getdatetime_loop p msg bus = getdatetime_loop p msg ?b"
    by (simp add: i2c_reply_at_def getdatetime_loop_step)
  moreover have "getdatetime_loop p msg ?b = Some y"
    using Suc.prems by (intro Suc.IH rollover_prefix_tail) (simp_all add: i2c_reply_at_Suc)
  ultimately show ?case by simp
qed



subsection \<open>The loop of up\_rtc\_settime\<close>

lemma settime_loop_step:
  assumes "settime_rollover p w (I2C_TRANSFER p bus msg)"
  shows "settime_loop p msg w bus = settime_loop p msg w (snd (snd (I2C_TRANSFER p bus msg)))"
  using assms
  by (subst settime_loop.simps)
     (simp add: settime_rollover_def Let_def split: prod.splits)

lemma settime_loop_last:
  assumes "settime_last p w (I2C_TRANSFER p bus msg) y"
  shows "settime_loop p msg w bus = Some y"
  using assms
  by (subst settime_loop.simps)
     (auto simp: settime_last_def Let_def split: prod.splits)

lemma settime_loop_run:
  assumes "\<forall>i<n. settime_rollover p w (i2c_reply_at p msg i bus)"
    and "settime_last p w (i2c_reply_at p msg n bus) y"
  shows "settime_loop p msg w bus = Some y"
  using assms
proof (induction n arbitrary: bus)
  case 0
  then show ?case by (simp add: i2c_reply_at_def settime_loop_last)
next
  case (Suc n)
  let ?b = "snd (snd (I2C_TRANSFER p bus msg))"
  from Suc.prems(1) have "settime_rollover p w (i2c_reply_at p msg 0 bus)" by blast
  then have "settime_loop p msg w bus = settime_loop p msg w ?b"
    by (simp add: i2c_reply_at_def settime_loop_step)
  moreover have "settime_loop p msg w ?b = Some y"
    using Suc.prems by (intro Suc.IH rollover_prefix_tail) (simp_all add: i2c_reply_at_Suc)
  ultimately show ?case by simp
qed

lemma settime_loop_Some_step:
  assumes IH: "\<And>bus y. loop bus = Some y \<Longrightarrow>
      \<exists>n. (\<forall>i<n. settime_rollover p w (i2c_reply_at p msg i bus)) \<and>
              settime_last p w (i2c_reply_at p msg n bus) y"
    and prem: "(case I2C_TRANSFER p bus msg of
        (ret, rx, bus') \<Rightarrow>
          if ret < 0 then Some (ret, bus')
          else
            let seconds = rx 2 0 in
            if (w AND PCF85263_RTC_SECONDS_MASK p) >
               (seconds AND PCF85263_RTC_SECONDS_MASK p)
            then loop bus'
            else Some (OK, bus')) = Some y"
  shows "\<exists>n. (\<forall>i<n. settime_rollover p w (i2c_reply_at p msg i bus)) \<and>
              settime_last p w (i2c_reply_at p msg n bus) y"
proof -
  obtain ret rx bus' where t: "I2C_TRANSFER p bus msg = (ret, rx, bus')"
    by (cases "I2C_TRANSFER p bus msg") auto
  show ?thesis
  proof (cases "settime_rollover p w (I2C_TRANSFER p bus msg)")
    case True
    with prem t have "loop bus' = Some y"
      by (simp add: settime_rollover_def Let_def)
    then obtain n where n: "\<forall>i<n. settime_rollover p w (i2c_reply_at p msg i bus')"
        "settime_last p w (i2c_reply_at p msg n bus') y"
      using IH by blast
    have "\<forall>i<Suc n. settime_rollover p w (i2c_reply_at p msg i bus)"
      using True n(1) t by (intro rollover_prefix_Suc) (simp_all add: i2c_reply_at_def)
    moreover have "settime_last p w (i2c_reply_at p msg (Suc n) bus) y"
      using n(2) t by (simp add: i2c_reply_at_def)
    ultimately show ?thesis by blast
  next
    case False
    with prem t have "settime_last p w (i2c_reply_at p msg 0 bus) y"
      by (auto simp: settime_rollover_def settime_last_def i2c_reply_at_def Let_def
               split: if_splits)
    then show ?thesis by (intro exI [of _ 0]) simp
  qed
qed

lemma settime_loop_Some:
  assumes "settime_loop p msg w bus = Some y"
  shows "\<exists>n. (\<forall>i<n. settime_rollover p w (i2c_reply_at p msg i bus)) \<and>
              settime_last p w (i2c_reply_at p msg n bus) y"
  apply (rule settime_loop.raw_induct
    [where P = "\<lambda>p msg w bus y. \<exists>n. (\<forall>i<n. settime_rollover p w (i2c_reply_at p msg i bus)) \<and>
              settime_last p w (i2c_reply_at p msg n bus) y"])
   apply (rule settime_loop_Some_step)
    prefer 2
    apply assumption
   apply blast
  apply (rule assms)
  done

subsection \<open>Facts about the example inputs\<close>

lemma scripted_transfer: "I2C_TRANSFER scripted = script_transfer"
  by (simp add: scripted_def pcf85263a_def)

lemma scripted_seconds_mask: "PCF85263_RTC_SECONDS_MASK scripted = 0x7f"
  by (simp add: scripted_def pcf85263a_def)

lemma scripted_reply_0:
  "i2c_reply_at scripted msg 0 (script ((ret, xs) # rs)) =
     (ret, rx_of xs, \<lparr>replies = rs, transfers = [msg]\<rparr>)"
  by (simp add: i2c_reply_at_def scripted_transfer script_transfer_def script_def)

lemma scripted_reply_1:
  "i2c_reply_at scripted msg 1 (script (r # (ret, xs) # rs)) =
     (ret, rx_of xs, \<lparr>replies = rs, transfers = [msg, msg]\<rparr>)"
  by (cases r) (simp add: i2c_reply_at_def scripted_transfer script_transfer_def script_def)

lemma initialize_enables: "pcf85263_rtc_initialize bus st = (OK, enabled_on bus)"
  by (simp add: pcf85263_rtc_initialize_def enabled_on_def)

lemma enabled_on_simps:
  "g_rtc_enabled (enabled_on bus)" "i2c (g_pcf85263 (enabled_on bus)) = bus"
  "(enabled_on bus)\<lparr>g_pcf85263 := \<lparr>i2c = bus'\<rparr>\<rparr> = enabled_on bus'"
  by (simp_all add: enabled_on_def)

subsection \<open>Calls before initialisation\<close>

text \<open>
  C5: when \<open>up_rtc_getdatetime\<close> is called while the RTC is not enabled, it returns
  \<open>-EAGAIN\<close>, the output structure holds the epoch (seconds, minutes and hours 0, day
  of the month 1, month 0, year 70, and weekday 4 when the weekday is tracked) with its
  other fields as they were, and the globals, the bus among them, are unchanged: no
  transfer took place.
\<close>

theorem getdatetime_not_enabled:
  "\<not> g_rtc_enabled st \<Longrightarrow>
   up_rtc_getdatetime p st tp =
     Some (- EAGAIN p,
           tp\<lparr>tm_sec := 0, tm_min := 0, tm_hour := 0, tm_mday := 1, tm_mon := 0, tm_year := 70,
              tm_wday := (if wday_tracked p then 4 else tm_wday tp)\<rparr>,
           st)"
  by (simp add: up_rtc_getdatetime_def getdatetime_epoch_def)

theorem getdatetime_not_enabled_witness:
  "\<not> g_rtc_enabled (disabled_on (script [])) \<and>
   up_rtc_getdatetime scripted (disabled_on (script [])) stale_tm =
     Some (- 11,
           \<lparr>tm_sec = 0, tm_min = 0, tm_hour = 0, tm_mday = 1, tm_mon = 0, tm_year = 70,
            tm_wday = 4, tm_yday = - 1, tm_isdst = - 1\<rparr>,
           \<lparr>g_rtc_enabled = False, g_pcf85263 = \<lparr>i2c = \<lparr>replies = [], transfers = []\<rparr>\<rparr>\<rparr>)"
  using getdatetime_not_enabled [of "disabled_on (script [])" scripted stale_tm]
  by (simp add: disabled_on_def script_def scripted_def pcf85263a_def stale_tm_def wday_tracked_def)

text \<open>
  C6: when \<open>up_rtc_settime\<close> is called while the RTC is not enabled, it returns
  \<open>-EAGAIN\<close> and leaves the globals, the bus among them, unchanged.
\<close>

theorem settime_not_enabled:
  "\<not> g_rtc_enabled st \<Longrightarrow> up_rtc_settime p st ts = Some (- EAGAIN p, st)"
  by (simp add: up_rtc_settime_def)

theorem settime_not_enabled_witness:
  "\<not> g_rtc_enabled (disabled_on (script [])) \<and>
   up_rtc_settime scripted (disabled_on (script [])) \<lparr>tv_sec = 946684799, tv_nsec = 0\<rparr> =
     Some (- 11, \<lparr>g_rtc_enabled = False, g_pcf85263 = \<lparr>i2c = \<lparr>replies = [], transfers = []\<rparr>\<rparr>\<rparr>)"
  using settime_not_enabled [of "disabled_on (script [])" scripted "\<lparr>tv_sec = 946684799, tv_nsec = 0\<rparr>"]
  by (simp add: disabled_on_def script_def scripted_def pcf85263a_def)

subsection \<open>The read protocol\<close>




subsection \<open>Evaluation of the examples\<close>

lemma rtc_bin2bcd_eval:
  "0 \<le> v \<Longrightarrow>
   rtc_bin2bcd v = word_of_int (push_bit 4 (uint (word_of_int (v div 10) :: u8)) OR v mod 10)"
  by (simp add: rtc_bin2bcd_def rtc_bin2bcd_loop_closed)

lemma utc_calendar_1999: "utc_calendar 946684799 =
    \<lparr>tm_sec = 59, tm_min = 59, tm_hour = 23, tm_mday = 31, tm_mon = 11, tm_year = 99,
     tm_wday = 5, tm_yday = 364, tm_isdst = 0\<rparr>"
  by code_simp

lemma scripted_calendar: "settime_calendar scripted t = Some (utc_calendar (uint t))"
  by (simp add: settime_calendar_def scripted_def pcf85263a_def gmtime_utc_def)

lemma scripted_buffer_1999:
  "settime_buffer scripted (utc_calendar 946684799) =
     [0x00, 0x00, 0x59, 0x59, 0x23, 0x31, 0x05, 0x12, 0x31]"
  unfolding utc_calendar_1999
  by (simp add: settime_buffer_def scripted_def pcf85263a_def wday_tracked_def rtc_bin2bcd_eval)

lemma newtime_1999: "settime_newtime \<lparr>tv_sec = 946684799 :: 32 word, tv_nsec = 0\<rparr> = 946684799"
  by (simp add: settime_newtime_def)


subsection \<open>The write protocol\<close>

lemma settime_retry_iff:
  assumes "g_rtc_enabled st"
    and "settime_calendar p (settime_newtime ts) = Some newtm"
  shows "up_rtc_settime p st ts = Some (OK, st') \<longleftrightarrow>
     (\<exists>n ret rx bus'.
        (\<forall>i<n. settime_rollover p (rtc_bin2bcd (tm_sec newtm))
                  (i2c_reply_at p (settime_msg p (settime_buffer p newtm)) i
                     (i2c (g_pcf85263 st)))) \<and>
        i2c_reply_at p (settime_msg p (settime_buffer p newtm)) n (i2c (g_pcf85263 st)) =
          (ret, rx, bus') \<and>
        0 \<le> ret \<and>
        (rtc_bin2bcd (tm_sec newtm) AND PCF85263_RTC_SECONDS_MASK p) \<le>
          (rx 2 0 AND PCF85263_RTC_SECONDS_MASK p) \<and>
        st' = st\<lparr>g_pcf85263 := \<lparr>i2c = bus'\<rparr>\<rparr>)"
    (is "?L \<longleftrightarrow> ?R")
proof
  let ?msg = "settime_msg p (settime_buffer p newtm)" and ?bus = "i2c (g_pcf85263 st)"
  let ?w = "rtc_bin2bcd (tm_sec newtm)"
  have w: "settime_buffer p newtm ! 2 = ?w"
    by (simp add: settime_buffer_def)
  have u: "up_rtc_settime p st ts =
      (case settime_loop p ?msg ?w ?bus of
         None \<Rightarrow> None
       | Some (ret, bus') \<Rightarrow> Some (ret, st\<lparr>g_pcf85263 := \<lparr>i2c = bus'\<rparr>\<rparr>))"
    using assms by (simp add: up_rtc_settime_def Let_def w)
  {
    assume l: ?L
    from l u obtain y where y: "settime_loop p ?msg ?w ?bus = Some y"
      by (auto split: option.splits)
    from settime_loop_Some [OF y] obtain n where
      nn: "(\<forall>i<n. settime_rollover p ?w (i2c_reply_at p ?msg i ?bus)) \<and>
        settime_last p ?w (i2c_reply_at p ?msg n ?bus) y" ..
    then have n: "\<forall>i<n. settime_rollover p ?w (i2c_reply_at p ?msg i ?bus)"
        "settime_last p ?w (i2c_reply_at p ?msg n ?bus) y"
      by (rule conjunct1, rule conjunct2)
    obtain ret rx bus' where r: "i2c_reply_at p ?msg n ?bus = (ret, rx, bus')"
      by (cases "i2c_reply_at p ?msg n ?bus") auto
    from l y u have ny: "fst y = OK" "st' = st\<lparr>g_pcf85263 := \<lparr>i2c = snd y\<rparr>\<rparr>"
      by (auto split: prod.splits)
    from n(2) r ny(1) have c: "0 \<le> ret"
        "(?w AND PCF85263_RTC_SECONDS_MASK p) \<le> (rx 2 0 AND PCF85263_RTC_SECONDS_MASK p)"
        "y = (OK, bus')"
      by (auto simp: settime_last_def OK_def)
    from ny(2) c(3) have e: "st' = st\<lparr>g_pcf85263 := \<lparr>i2c = bus'\<rparr>\<rparr>"
      by simp
    show ?R
      apply (rule exI [of _ n])
      apply (rule exI [of _ ret])
      apply (rule exI [of _ rx])
      apply (rule exI [of _ bus'])
      apply (intro conjI)
          apply (rule n(1))
         apply (rule r)
        apply (rule c(1))
       apply (rule c(2))
      apply (rule e)
      done
  }
  {
    assume ?R
    then obtain n ret rx bus' where
      n: "\<forall>i<n. settime_rollover p ?w (i2c_reply_at p ?msg i ?bus)"
      and r: "i2c_reply_at p ?msg n ?bus = (ret, rx, bus')"
      and c: "0 \<le> ret"
        "(?w AND PCF85263_RTC_SECONDS_MASK p) \<le> (rx 2 0 AND PCF85263_RTC_SECONDS_MASK p)"
      and e: "st' = st\<lparr>g_pcf85263 := \<lparr>i2c = bus'\<rparr>\<rparr>"
      by (elim exE conjE)
    have "settime_loop p ?msg ?w ?bus = Some (OK, bus')"
      using n
    proof (rule settime_loop_run)
      show "settime_last p ?w (i2c_reply_at p ?msg n ?bus) (OK, bus')"
        using c by (simp add: r settime_last_def)
    qed
    with u e show ?L by simp
  }
qed

text \<open>
  C7: with the RTC enabled and the calendar conversion of the rounded time giving
  \<open>newtm\<close>, every transfer of \<open>up_rtc_settime\<close> is the array \<open>msg\<close> of three
  messages to the chip at address 0x51: a write of 9 bytes (the address of the hundredths
  register, the 0 for the hundredths and the seven encoded fields, the BCD seconds of
  \<open>newtm\<close> third), a write of the address of the seconds register, and a read of 1
  byte. The function returns \<open>OK\<close> exactly when, for some \<open>n\<close>, each of the first
  \<open>n\<close> transfers of \<open>msg\<close> succeeded with the masked BCD seconds written greater than
  the masked seconds read back (so each was repeated), and transfer \<open>n\<close> succeeded with
  the written seconds not greater than the seconds read back; the bus is left as that
  transfer left it.
\<close>

theorem settime_rollover_retry:
  assumes en: "g_rtc_enabled st"
    and cal: "settime_calendar p (settime_newtime ts) = Some newtm"
    and msg: "msg =
       [\<lparr>frequency = CONFIG_PCF85263_I2C_FREQUENCY p, addr = 0x51, flags = 0,
         buffer_msg =
           [PCF85263_RTC_100TH_SECONDS p,
            0,
            rtc_bin2bcd (tm_sec newtm),
            rtc_bin2bcd (tm_min newtm),
            rtc_bin2bcd (tm_hour newtm),
            rtc_bin2bcd (tm_mday newtm),
            (if wday_tracked p then rtc_bin2bcd (tm_wday newtm) else 0),
            rtc_bin2bcd (tm_mon newtm + 1),
            rtc_bin2bcd (tm_year newtm - 68)],
         length_msg = 9\<rparr>,
        \<lparr>frequency = CONFIG_PCF85263_I2C_FREQUENCY p, addr = 0x51, flags = 0,
         buffer_msg = [PCF85263_RTC_SECONDS p], length_msg = 1\<rparr>,
        \<lparr>frequency = CONFIG_PCF85263_I2C_FREQUENCY p, addr = 0x51, flags = I2C_M_READ p,
         buffer_msg = [], length_msg = 1\<rparr>]"
  shows "up_rtc_settime p st ts = Some (OK, st') \<longleftrightarrow>
     (\<exists>n ret rx bus'.
        (\<forall>i<n. settime_rollover p (rtc_bin2bcd (tm_sec newtm))
                  (i2c_reply_at p msg i (i2c (g_pcf85263 st)))) \<and>
        i2c_reply_at p msg n (i2c (g_pcf85263 st)) = (ret, rx, bus') \<and>
        0 \<le> ret \<and>
        (rtc_bin2bcd (tm_sec newtm) AND PCF85263_RTC_SECONDS_MASK p) \<le>
          (rx 2 0 AND PCF85263_RTC_SECONDS_MASK p) \<and>
        st' = st\<lparr>g_pcf85263 := \<lparr>i2c = bus'\<rparr>\<rparr>)"
proof -
  have "settime_msg p (settime_buffer p newtm) = msg"
    by (simp add: msg settime_msg_def settime_buffer_def Let_def PCF85263_I2C_ADDRESS_def)
  then show ?thesis
    using settime_retry_iff [OF en cal, of st'] by simp
qed

theorem settime_rollover_retry_witness:
  "up_rtc_settime scripted
     (enabled_on (script [(0, [[], [], [0x00]]), (0, [[], [], [0x59]])]))
     \<lparr>tv_sec = 946684799, tv_nsec = 0\<rparr> =
   Some (OK,
         enabled_on
           \<lparr>replies = [],
            transfers =
              [[\<lparr>frequency = 400000, addr = 0x51, flags = 0,
         buffer_msg =
           [0x00, 0x00, 0x59, 0x59, 0x23, 0x31, 0x05, 0x12, 0x31],
         length_msg = 9\<rparr>,
        \<lparr>frequency = 400000, addr = 0x51, flags = 0,
         buffer_msg = [0x01], length_msg = 1\<rparr>,
        \<lparr>frequency = 400000, addr = 0x51, flags = 1,
         buffer_msg = [], length_msg = 1\<rparr>],
               [\<lparr>frequency = 400000, addr = 0x51, flags = 0,
         buffer_msg =
           [0x00, 0x00, 0x59, 0x59, 0x23, 0x31, 0x05, 0x12, 0x31],
         length_msg = 9\<rparr>,
        \<lparr>frequency = 400000, addr = 0x51, flags = 0,
         buffer_msg = [0x01], length_msg = 1\<rparr>,
        \<lparr>frequency = 400000, addr = 0x51, flags = 1,
         buffer_msg = [], length_msg = 1\<rparr>]]\<rparr>)"
proof -
  let ?bus = "script [(0, [[], [], [0x00]]), (0, [[], [], [0x59]])]"
  let ?ts = "\<lparr>tv_sec = 946684799 :: 32 word, tv_nsec = 0\<rparr>"
  let ?tm = "utc_calendar 946684799"
  let ?msg = "[\<lparr>frequency = 400000, addr = 0x51, flags = 0,
         buffer_msg =
           [0x00, 0x00, 0x59, 0x59, 0x23, 0x31, 0x05, 0x12, 0x31],
         length_msg = 9\<rparr>,
        \<lparr>frequency = 400000, addr = 0x51, flags = 0,
         buffer_msg = [0x01], length_msg = 1\<rparr>,
        \<lparr>frequency = 400000, addr = 0x51, flags = 1,
         buffer_msg = [], length_msg = 1\<rparr>]"
  let ?bus' = "\<lparr>replies = [], transfers = [?msg, ?msg]\<rparr>"
  let ?rx = "rx_of [[], [], [0x59]]"
  have cal: "settime_calendar scripted (settime_newtime ?ts) = Some ?tm"
    by (simp add: scripted_calendar newtime_1999)
  have w: "rtc_bin2bcd (tm_sec ?tm) = 0x59"
    unfolding utc_calendar_1999 by (simp add: rtc_bin2bcd_eval)
  have b: "[PCF85263_RTC_100TH_SECONDS scripted,
            0,
            rtc_bin2bcd (tm_sec (utc_calendar 946684799)),
            rtc_bin2bcd (tm_min (utc_calendar 946684799)),
            rtc_bin2bcd (tm_hour (utc_calendar 946684799)),
            rtc_bin2bcd (tm_mday (utc_calendar 946684799)),
            (if wday_tracked scripted then rtc_bin2bcd (tm_wday (utc_calendar 946684799)) else 0),
            rtc_bin2bcd (tm_mon (utc_calendar 946684799) + 1),
            rtc_bin2bcd (tm_year (utc_calendar 946684799) - 68)] =
      [0x00, 0x00, 0x59, 0x59, 0x23, 0x31, 0x05, 0x12, 0x31]"
    using scripted_buffer_1999 by (simp only: settime_buffer_def)
  have c0: "CONFIG_PCF85263_I2C_FREQUENCY scripted = 400000"
      "PCF85263_RTC_SECONDS scripted = 0x01" "I2C_M_READ scripted = 1"
    by (simp_all add: scripted_def pcf85263a_def)
  have msg: "?msg =
       [\<lparr>frequency = CONFIG_PCF85263_I2C_FREQUENCY scripted, addr = 0x51, flags = 0,
         buffer_msg =
           [PCF85263_RTC_100TH_SECONDS scripted,
            0,
            rtc_bin2bcd (tm_sec (utc_calendar 946684799)),
            rtc_bin2bcd (tm_min (utc_calendar 946684799)),
            rtc_bin2bcd (tm_hour (utc_calendar 946684799)),
            rtc_bin2bcd (tm_mday (utc_calendar 946684799)),
            (if wday_tracked scripted then rtc_bin2bcd (tm_wday (utc_calendar 946684799)) else 0),
            rtc_bin2bcd (tm_mon (utc_calendar 946684799) + 1),
            rtc_bin2bcd (tm_year (utc_calendar 946684799) - 68)],
         length_msg = 9\<rparr>,
        \<lparr>frequency = CONFIG_PCF85263_I2C_FREQUENCY scripted, addr = 0x51, flags = 0,
         buffer_msg = [PCF85263_RTC_SECONDS scripted], length_msg = 1\<rparr>,
        \<lparr>frequency = CONFIG_PCF85263_I2C_FREQUENCY scripted, addr = 0x51, flags = I2C_M_READ scripted,
         buffer_msg = [], length_msg = 1\<rparr>]"
    unfolding b c0 by (rule refl)
  have "settime_rollover scripted (rtc_bin2bcd (tm_sec ?tm)) (i2c_reply_at scripted ?msg 0 ?bus)"
    unfolding scripted_reply_0 w
    by (simp add: settime_rollover_def scripted_seconds_mask rx_of_def)
  then have roll: "\<forall>i<1. settime_rollover scripted (rtc_bin2bcd (tm_sec ?tm))
      (i2c_reply_at scripted ?msg i (i2c (g_pcf85263 (enabled_on ?bus))))"
    by (simp add: enabled_on_simps)
  have r1: "i2c_reply_at scripted ?msg 1 (i2c (g_pcf85263 (enabled_on ?bus))) = (0, ?rx, ?bus')"
    unfolding enabled_on_simps by (rule scripted_reply_1)
  have c: "(rtc_bin2bcd (tm_sec ?tm) AND PCF85263_RTC_SECONDS_MASK scripted) \<le>
           (?rx 2 0 AND PCF85263_RTC_SECONDS_MASK scripted)"
    unfolding w by (simp add: scripted_seconds_mask rx_of_def)
  have st: "enabled_on ?bus' = (enabled_on ?bus)\<lparr>g_pcf85263 := \<lparr>i2c = ?bus'\<rparr>\<rparr>"
    by (simp add: enabled_on_simps)
  show ?thesis
    apply (rule iffD2 [OF settime_rollover_retry [OF enabled_on_simps(1) cal msg]])
    apply (rule exI [of _ 1])
    apply (rule exI [of _ 0])
    apply (rule exI [of _ ?rx])
    apply (rule exI [of _ ?bus'])
    apply (intro conjI)
        apply (rule roll)
       apply (rule r1)
      apply simp
     apply (rule c)
    apply (rule st)
    done
qed

subsection \<open>Bus errors\<close>

lemma getdatetime_bus_error:
  assumes "g_rtc_enabled st"
    and "\<forall>i<n. getdatetime_rollover p (i2c_reply_at p (getdatetime_msg p) i (i2c (g_pcf85263 st)))"
    and "i2c_reply_at p (getdatetime_msg p) n (i2c (g_pcf85263 st)) = (ret, rx, bus')"
    and "ret < 0"
  shows "up_rtc_getdatetime p st tp = Some (ret, tp, st\<lparr>g_pcf85263 := \<lparr>i2c = bus'\<rparr>\<rparr>)"
proof -
  have "getdatetime_loop p (getdatetime_msg p) (i2c (g_pcf85263 st)) = Some (Inl (ret, bus'))"
    using assms(2)
  proof (rule getdatetime_loop_run)
    show "getdatetime_last p (i2c_reply_at p (getdatetime_msg p) n (i2c (g_pcf85263 st)))
        (Inl (ret, bus'))"
      using assms(4) by (simp add: assms(3) getdatetime_last_def)
  qed
  with assms(1) show ?thesis by (simp add: up_rtc_getdatetime_def)
qed

lemma settime_bus_error:
  assumes "g_rtc_enabled st"
    and "settime_calendar p (settime_newtime ts) = Some newtm"
    and "\<forall>i<n. settime_rollover p (rtc_bin2bcd (tm_sec newtm))
            (i2c_reply_at p (settime_msg p (settime_buffer p newtm)) i (i2c (g_pcf85263 st)))"
    and "i2c_reply_at p (settime_msg p (settime_buffer p newtm)) n (i2c (g_pcf85263 st)) =
           (ret, rx, bus')"
    and "ret < 0"
  shows "up_rtc_settime p st ts = Some (ret, st\<lparr>g_pcf85263 := \<lparr>i2c = bus'\<rparr>\<rparr>)"
proof -
  let ?msg = "settime_msg p (settime_buffer p newtm)"
  have w: "settime_buffer p newtm ! 2 = rtc_bin2bcd (tm_sec newtm)"
    by (simp add: settime_buffer_def)
  have "settime_loop p ?msg (rtc_bin2bcd (tm_sec newtm)) (i2c (g_pcf85263 st)) = Some (ret, bus')"
    using assms(3)
  proof (rule settime_loop_run)
    show "settime_last p (rtc_bin2bcd (tm_sec newtm))
        (i2c_reply_at p ?msg n (i2c (g_pcf85263 st))) (ret, bus')"
      using assms(5) by (simp add: assms(4) settime_last_def)
  qed
  with assms(1,2) show ?thesis by (simp add: up_rtc_settime_def Let_def w)
qed

text \<open>
  C4: with the RTC enabled, when a transfer issued by \<open>up_rtc_getdatetime\<close> or by
  \<open>up_rtc_settime\<close> (one that follows only transfers repeated for a rollover) returns
  a negative status, the function returns that same status, the bus is left as the failed
  transfer left it (no further transfer is made), and \<open>up_rtc_getdatetime\<close> returns
  the output structure as it received it.
\<close>

theorem bus_error_returned:
  assumes "g_rtc_enabled st"
  shows
    "((\<forall>i<n. getdatetime_rollover p
                (i2c_reply_at p (getdatetime_msg p) i (i2c (g_pcf85263 st)))) \<and>
      i2c_reply_at p (getdatetime_msg p) n (i2c (g_pcf85263 st)) = (ret, rx, bus') \<and>
      ret < 0 \<longrightarrow>
      up_rtc_getdatetime p st tp = Some (ret, tp, st\<lparr>g_pcf85263 := \<lparr>i2c = bus'\<rparr>\<rparr>)) \<and>
     (settime_calendar p (settime_newtime ts) = Some newtm \<and>
      (\<forall>i<m. settime_rollover p (rtc_bin2bcd (tm_sec newtm))
                (i2c_reply_at p (settime_msg p (settime_buffer p newtm)) i
                   (i2c (g_pcf85263 st)))) \<and>
      i2c_reply_at p (settime_msg p (settime_buffer p newtm)) m (i2c (g_pcf85263 st)) =
        (ret2, rx2, bus2) \<and>
      ret2 < 0 \<longrightarrow>
      up_rtc_settime p st ts = Some (ret2, st\<lparr>g_pcf85263 := \<lparr>i2c = bus2\<rparr>\<rparr>))"
proof (intro conjI impI)
  assume "(\<forall>i<n. getdatetime_rollover p
                (i2c_reply_at p (getdatetime_msg p) i (i2c (g_pcf85263 st)))) \<and>
      i2c_reply_at p (getdatetime_msg p) n (i2c (g_pcf85263 st)) = (ret, rx, bus') \<and>
      ret < 0"
  then show "up_rtc_getdatetime p st tp = Some (ret, tp, st\<lparr>g_pcf85263 := \<lparr>i2c = bus'\<rparr>\<rparr>)"
    by (elim conjE) (rule getdatetime_bus_error [OF assms])
next
  assume "settime_calendar p (settime_newtime ts) = Some newtm \<and>
      (\<forall>i<m. settime_rollover p (rtc_bin2bcd (tm_sec newtm))
                (i2c_reply_at p (settime_msg p (settime_buffer p newtm)) i
                   (i2c (g_pcf85263 st)))) \<and>
      i2c_reply_at p (settime_msg p (settime_buffer p newtm)) m (i2c (g_pcf85263 st)) =
        (ret2, rx2, bus2) \<and>
      ret2 < 0"
  then show "up_rtc_settime p st ts = Some (ret2, st\<lparr>g_pcf85263 := \<lparr>i2c = bus2\<rparr>\<rparr>)"
    by (elim conjE) (rule settime_bus_error [OF assms])
qed

theorem bus_error_returned_witness:
  "up_rtc_getdatetime scripted (enabled_on (script [(0, read_2359_then_00), (- 5, [])])) stale_tm =
     Some (- 5, stale_tm,
           enabled_on \<lparr>replies = [],
                       transfers = [getdatetime_msg scripted, getdatetime_msg scripted]\<rparr>) \<and>
   up_rtc_settime scripted (enabled_on (script [(- 5, []), (0, [[], [], [0x59]])]))
       \<lparr>tv_sec = 946684799, tv_nsec = 0\<rparr> =
     Some (- 5,
           enabled_on
             \<lparr>replies = [(0, [[], [], [0x59]])],
              transfers =
                [settime_msg scripted [0x00, 0x00, 0x59, 0x59, 0x23, 0x31, 0x05, 0x12, 0x31]]\<rparr>)"
proof -
  let ?gbus = "script [(0, read_2359_then_00), (- 5, [])]"
  let ?gmsg = "getdatetime_msg scripted"
  let ?gbus' = "\<lparr>replies = [], transfers = [?gmsg, ?gmsg]\<rparr>"
  let ?sbus = "script [(- 5, []), (0, [[], [], [0x59]])]"
  let ?ts = "\<lparr>tv_sec = 946684799 :: 32 word, tv_nsec = 0\<rparr>"
  let ?tm = "utc_calendar 946684799"
  let ?smsg = "settime_msg scripted (settime_buffer scripted ?tm)"
  let ?sbus' = "\<lparr>replies = [(0, [[], [], [0x59]])], transfers = [?smsg]\<rparr>"
  have "getdatetime_rollover scripted (i2c_reply_at scripted ?gmsg 0 ?gbus)"
    unfolding scripted_reply_0
    by (simp add: getdatetime_rollover_def scripted_seconds_mask rx_of_def read_2359_then_00_def)
  then have groll: "\<forall>i<1. getdatetime_rollover scripted
      (i2c_reply_at scripted ?gmsg i (i2c (g_pcf85263 (enabled_on ?gbus))))"
    by (simp add: enabled_on_simps)
  have gr: "i2c_reply_at scripted ?gmsg 1 (i2c (g_pcf85263 (enabled_on ?gbus))) =
      (- 5, rx_of [], ?gbus')"
    unfolding enabled_on_simps by (rule scripted_reply_1)
  have cal: "settime_calendar scripted (settime_newtime ?ts) = Some ?tm"
    by (simp add: scripted_calendar newtime_1999)
  have sroll: "\<forall>i<0. settime_rollover scripted (rtc_bin2bcd (tm_sec ?tm))
      (i2c_reply_at scripted ?smsg i (i2c (g_pcf85263 (enabled_on ?sbus))))"
    by simp
  have sr: "i2c_reply_at scripted ?smsg 0 (i2c (g_pcf85263 (enabled_on ?sbus))) =
      (- 5, rx_of [], ?sbus')"
    unfolding enabled_on_simps by (rule scripted_reply_0)
  note err = bus_error_returned [OF enabled_on_simps(1)]
  have g: "up_rtc_getdatetime scripted (enabled_on ?gbus) stale_tm =
      Some (- 5, stale_tm, enabled_on ?gbus')"
    using err [THEN conjunct1, THEN mp, OF conjI [OF groll conjI [OF gr]]]
    by (simp add: enabled_on_simps)
  have s: "up_rtc_settime scripted (enabled_on ?sbus) ?ts = Some (- 5, enabled_on ?sbus')"
    using err [THEN conjunct2, THEN mp, OF conjI [OF cal conjI [OF sroll conjI [OF sr]]]]
    by (simp add: enabled_on_simps)
  from g s show ?thesis
    by (simp only: scripted_buffer_1999) 
qed

subsection \<open>The register-file bus\<close>





lemma getdatetime_single:
  assumes "g_rtc_enabled st"
    and "I2C_TRANSFER p (i2c (g_pcf85263 st)) (getdatetime_msg p) = (ret, rx, bus')"
    and "0 \<le> ret"
    and "(rx 1 0 AND PCF85263_RTC_SECONDS_MASK p) \<le> (rx 3 0 AND PCF85263_RTC_SECONDS_MASK p)"
  shows "up_rtc_getdatetime p st tp =
         Some (OK, getdatetime_format p (rx 1) tp, st\<lparr>g_pcf85263 := \<lparr>i2c = bus'\<rparr>\<rparr>)"
proof -
  have "getdatetime_loop p (getdatetime_msg p) (i2c (g_pcf85263 st)) =
        Some (Inr (rx 1, rx 3 0, bus'))"
    using assms(3,4) by (intro getdatetime_loop_last) (simp add: assms(2) getdatetime_last_def)
  with assms(1) show ?thesis by (simp add: up_rtc_getdatetime_def)
qed

lemma settime_single:
  assumes "g_rtc_enabled st"
    and "settime_calendar p (settime_newtime ts) = Some newtm"
    and "I2C_TRANSFER p (i2c (g_pcf85263 st)) (settime_msg p (settime_buffer p newtm)) =
           (ret, rx, bus')"
    and "0 \<le> ret"
    and "(rtc_bin2bcd (tm_sec newtm) AND PCF85263_RTC_SECONDS_MASK p) \<le>
           (rx 2 0 AND PCF85263_RTC_SECONDS_MASK p)"
  shows "up_rtc_settime p st ts = Some (OK, st\<lparr>g_pcf85263 := \<lparr>i2c = bus'\<rparr>\<rparr>)"
proof -
  have w: "settime_buffer p newtm ! 2 = rtc_bin2bcd (tm_sec newtm)"
    by (simp add: settime_buffer_def)
  have "settime_loop p (settime_msg p (settime_buffer p newtm)) (rtc_bin2bcd (tm_sec newtm))
          (i2c (g_pcf85263 st)) = Some (OK, bus')"
    using assms(4,5) by (intro settime_loop_last) (simp add: assms(3) settime_last_def)
  with assms(1,2) show ?thesis by (simp add: up_rtc_settime_def Let_def w)
qed





subsection \<open>Set followed by get\<close>









text \<open>
  At the largest value of an unsigned 32-bit \<open>time_t\<close> the increment of the rounding
  wraps to 0; the statement below leaves such a time out.
\<close>

lemma settime_newtime_wraps:
  "settime_newtime \<lparr>tv_sec = 4294967295 :: 32 word, tv_nsec = 500000000\<rparr> = 0"
  "\<not> newtime_fits \<lparr>tv_sec = 4294967295 :: 32 word, tv_nsec = 500000000\<rparr>"
  by (simp_all add: settime_newtime_def newtime_fits_def)




subsection \<open>The message of up\_rtc\_settime\<close>

lemma script_transfer_Nil:
  "replies b = [] \<Longrightarrow>
   script_transfer b msg = (- 1, rx_of [], \<lparr>replies = [], transfers = transfers b @ [msg]\<rparr>)"
  by (cases b) (simp add: script_transfer_def)

lemma script_transfer_Cons:
  "replies b = (ret, xs) # rs \<Longrightarrow>
   script_transfer b msg = (ret, rx_of xs, \<lparr>replies = rs, transfers = transfers b @ [msg]\<rparr>)"
  by (simp add: script_transfer_def)

text \<open>On the scripted bus the loop of \<open>up_rtc_settime\<close> ends, every transfer it made
  having been given the same message array.\<close>

lemma settime_loop_script:
  assumes t: "I2C_TRANSFER p = script_transfer"
  shows "\<exists>ret k. settime_loop p msg w b =
           Some (ret, \<lparr>replies = drop (Suc k) (replies b),
                       transfers = transfers b @ replicate (Suc k) msg\<rparr>)"
proof (induction "replies b" arbitrary: b)
  case Nil
  then have r: "replies b = []" by simp
  have "settime_loop p msg w b =
      Some (- 1, \<lparr>replies = [], transfers = transfers b @ [msg]\<rparr>)"
    by (subst settime_loop.simps) (simp add: t script_transfer_Nil [OF r])
  then have "settime_loop p msg w b =
      Some (- 1, \<lparr>replies = drop (Suc 0) (replies b),
                  transfers = transfers b @ replicate (Suc 0) msg\<rparr>)"
    by (simp add: r)
  then show ?case by blast
next
  case (Cons x rs)
  obtain ret xs where x: "x = (ret, xs)" by (cases x)
  with Cons.hyps(2) have r: "replies b = (ret, xs) # rs" by simp
  let ?b' = "\<lparr>replies = rs, transfers = transfers b @ [msg]\<rparr>"
  have tr: "I2C_TRANSFER p b msg = (ret, rx_of xs, ?b')"
    by (simp add: t script_transfer_Cons [OF r])
  show ?case
  proof (cases "settime_rollover p w (I2C_TRANSFER p b msg)")
    case True
    then have "settime_loop p msg w b = settime_loop p msg w ?b'"
      using settime_loop_step [OF True] by (simp add: tr)
    moreover obtain ret' k where "settime_loop p msg w ?b' =
        Some (ret', \<lparr>replies = drop (Suc k) (replies ?b'),
                     transfers = transfers ?b' @ replicate (Suc k) msg\<rparr>)"
      using Cons.hyps(1) [of ?b'] by auto
    ultimately have "settime_loop p msg w b =
        Some (ret', \<lparr>replies = drop (Suc (Suc k)) (replies b),
                     transfers = transfers b @ replicate (Suc (Suc k)) msg\<rparr>)"
      by (simp add: r)
    then show ?thesis by blast
  next
    case False
    then have "\<exists>ret'. settime_loop p msg w b = Some (ret', ?b')"
      by (subst settime_loop.simps)
         (auto simp: tr settime_rollover_def Let_def)
    then obtain ret' where "settime_loop p msg w b = Some (ret', ?b')" ..
    then have "settime_loop p msg w b =
        Some (ret', \<lparr>replies = drop (Suc 0) (replies b),
                     transfers = transfers b @ replicate (Suc 0) msg\<rparr>)"
      by (simp add: r)
    then show ?thesis by blast
  qed
qed

text \<open>
  C9 (amended): with the RTC enabled and the calendar conversion of the rounded time
  giving \<open>newtm\<close>, every transfer \<open>up_rtc_settime\<close> makes consists of the same three
  messages, the first of which carries 9 bytes: byte 0 is the address of the hundredths
  register, byte 1 is 0 (it clears the hundredths), and bytes 2 to 8 are the BCD encodings
  of the seconds, minutes, hours, day of the month, day of the week (0 when the weekday is
  not tracked), month + 1 and year - 68 of \<open>newtm\<close>. It is stated on the bus that
  records what it is given, on which the function always returns.
\<close>

theorem settime_transmits:
  assumes en: "g_rtc_enabled st"
    and t: "I2C_TRANSFER p = script_transfer"
    and cal: "settime_calendar p
                (if 500000000 \<le> tv_nsec ts then tv_sec ts + 1 else tv_sec ts) = Some newtm"
  shows "\<exists>ret k. up_rtc_settime p st ts =
     Some (ret,
       st\<lparr>g_pcf85263 := \<lparr>i2c =
         \<lparr>replies = drop (Suc k) (replies (i2c (g_pcf85263 st))),
          transfers = transfers (i2c (g_pcf85263 st)) @ replicate (Suc k)
            [\<lparr>frequency = CONFIG_PCF85263_I2C_FREQUENCY p, addr = PCF85263_I2C_ADDRESS,
              flags = 0,
              buffer_msg =
                [PCF85263_RTC_100TH_SECONDS p,
                 0,
                 rtc_bin2bcd (tm_sec newtm),
                 rtc_bin2bcd (tm_min newtm),
                 rtc_bin2bcd (tm_hour newtm),
                 rtc_bin2bcd (tm_mday newtm),
                 (if wday_tracked p then rtc_bin2bcd (tm_wday newtm) else 0),
                 rtc_bin2bcd (tm_mon newtm + 1),
                 rtc_bin2bcd (tm_year newtm - 68)],
              length_msg = 9\<rparr>,
             \<lparr>frequency = CONFIG_PCF85263_I2C_FREQUENCY p, addr = PCF85263_I2C_ADDRESS,
              flags = 0, buffer_msg = [PCF85263_RTC_SECONDS p], length_msg = 1\<rparr>,
             \<lparr>frequency = CONFIG_PCF85263_I2C_FREQUENCY p, addr = PCF85263_I2C_ADDRESS,
              flags = I2C_M_READ p, buffer_msg = [], length_msg = 1\<rparr>]\<rparr>\<rparr>\<rparr>)"
proof -
  let ?msg = "settime_msg p (settime_buffer p newtm)"
  let ?b = "i2c (g_pcf85263 st)"
  have cal': "settime_calendar p (settime_newtime ts) = Some newtm"
    using cal by (simp add: settime_newtime_def Let_def)
  obtain ret k where l: "settime_loop p ?msg (settime_buffer p newtm ! 2) ?b =
      Some (ret, \<lparr>replies = drop (Suc k) (replies ?b),
                  transfers = transfers ?b @ replicate (Suc k) ?msg\<rparr>)"
    using settime_loop_script [OF t] by blast
  have "up_rtc_settime p st ts =
      Some (ret, st\<lparr>g_pcf85263 := \<lparr>i2c =
        \<lparr>replies = drop (Suc k) (replies ?b),
         transfers = transfers ?b @ replicate (Suc k) ?msg\<rparr>\<rparr>\<rparr>)"
    using en cal' l by (simp add: up_rtc_settime_def Let_def)
  then show ?thesis
    unfolding settime_msg_def settime_buffer_def Let_def by blast
qed

theorem settime_transmits_witness:
  "\<exists>ret k. up_rtc_settime scripted (enabled_on (script [(0, [[], [], [0x59]])]))
       \<lparr>tv_sec = 946684799, tv_nsec = 0\<rparr> =
     Some (ret,
       enabled_on
         \<lparr>replies = drop (Suc k) [(0, [[], [], [0x59]])],
          transfers = replicate (Suc k)
            [\<lparr>frequency = 400000, addr = 0x51, flags = 0,
              buffer_msg = [0x00, 0x00, 0x59, 0x59, 0x23, 0x31, 0x05, 0x12, 0x31],
              length_msg = 9\<rparr>,
             \<lparr>frequency = 400000, addr = 0x51, flags = 0, buffer_msg = [0x01],
              length_msg = 1\<rparr>,
             \<lparr>frequency = 400000, addr = 0x51, flags = 1, buffer_msg = [],
              length_msg = 1\<rparr>]\<rparr>)"
proof -
  let ?ts = "\<lparr>tv_sec = 946684799 :: 32 word, tv_nsec = 0\<rparr>"
  have cal: "settime_calendar scripted
      (if 500000000 \<le> tv_nsec ?ts then tv_sec ?ts + 1 else tv_sec ?ts) =
      Some (utc_calendar 946684799)"
    by (simp add: scripted_calendar)
  have b: "[PCF85263_RTC_100TH_SECONDS scripted,
                 0,
                 rtc_bin2bcd (tm_sec (utc_calendar 946684799)),
                 rtc_bin2bcd (tm_min (utc_calendar 946684799)),
                 rtc_bin2bcd (tm_hour (utc_calendar 946684799)),
                 rtc_bin2bcd (tm_mday (utc_calendar 946684799)),
                 (if wday_tracked scripted then rtc_bin2bcd (tm_wday (utc_calendar 946684799)) else 0),
                 rtc_bin2bcd (tm_mon (utc_calendar 946684799) + 1),
                 rtc_bin2bcd (tm_year (utc_calendar 946684799) - 68)] =
      [0x00, 0x00, 0x59, 0x59, 0x23, 0x31, 0x05, 0x12, 0x31]"
    using scripted_buffer_1999 by (simp only: settime_buffer_def)
  have c: "CONFIG_PCF85263_I2C_FREQUENCY scripted = 400000" "PCF85263_I2C_ADDRESS = 0x51"
      "PCF85263_RTC_SECONDS scripted = 0x01" "I2C_M_READ scripted = 1"
    by (simp_all add: scripted_def pcf85263a_def PCF85263_I2C_ADDRESS_def)
  from settime_transmits
    [OF enabled_on_simps(1) [of "script [(0, [[], [], [0x59]])]"] scripted_transfer cal]
  obtain ret k where
    "up_rtc_settime scripted (enabled_on (script [(0, [[], [], [0x59]])])) ?ts =
     Some (ret,
       enabled_on
         \<lparr>replies = drop (Suc k) [(0, [[], [], [0x59]])],
          transfers = replicate (Suc k)
            [\<lparr>frequency = 400000, addr = 0x51, flags = 0,
              buffer_msg = [0x00, 0x00, 0x59, 0x59, 0x23, 0x31, 0x05, 0x12, 0x31],
              length_msg = 9\<rparr>,
             \<lparr>frequency = 400000, addr = 0x51, flags = 0, buffer_msg = [0x01],
              length_msg = 1\<rparr>,
             \<lparr>frequency = 400000, addr = 0x51, flags = 1, buffer_msg = [],
              length_msg = 1\<rparr>]\<rparr>)"
    unfolding b c enabled_on_simps by (auto simp: script_def)
  then show ?thesis by (intro exI)
qed

text \<open>
  C9 as stated fails: of the 9 bytes transmitted for 23:59:59 the byte after byte 0 is the
  0 of the hundredths, not the BCD seconds 0x59, and the bytes after the address are 8.
\<close>

theorem settime_transmits_counterexample:
  "up_rtc_settime scripted (enabled_on (script [(0, [[], [], [0x59]])]))
       \<lparr>tv_sec = 946684799, tv_nsec = 0\<rparr> =
     Some (OK,
       enabled_on
         \<lparr>replies = [],
          transfers =
            [[\<lparr>frequency = 400000, addr = 0x51, flags = 0,
               buffer_msg = [0x00, 0x00, 0x59, 0x59, 0x23, 0x31, 0x05, 0x12, 0x31],
               length_msg = 9\<rparr>,
              \<lparr>frequency = 400000, addr = 0x51, flags = 0, buffer_msg = [0x01],
               length_msg = 1\<rparr>,
              \<lparr>frequency = 400000, addr = 0x51, flags = 1, buffer_msg = [],
               length_msg = 1\<rparr>]]\<rparr>) \<and>
   \<not> ([0x00, 0x00, 0x59, 0x59, 0x23, 0x31, 0x05, 0x12, 0x31] ! 1 =
        rtc_bin2bcd (tm_sec (utc_calendar 946684799))) \<and>
   length (tl [0x00, 0x00, 0x59, 0x59, 0x23, 0x31, 0x05, 0x12, 0x31 :: u8]) \<noteq> 9"
proof -
  let ?ts = "\<lparr>tv_sec = 946684799 :: 32 word, tv_nsec = 0\<rparr>"
  let ?tm = "utc_calendar 946684799"
  let ?msg = "settime_msg scripted (settime_buffer scripted ?tm)"
  let ?bus = "script [(0, [[], [], [0x59]])]"
  have cal: "settime_calendar scripted (settime_newtime ?ts) = Some ?tm"
    by (simp add: scripted_calendar newtime_1999)
  have w: "rtc_bin2bcd (tm_sec ?tm) = 0x59"
    unfolding utc_calendar_1999 by (simp add: rtc_bin2bcd_eval)
  have r: "I2C_TRANSFER scripted (i2c (g_pcf85263 (enabled_on ?bus))) ?msg =
      (0, rx_of [[], [], [0x59]], \<lparr>replies = [], transfers = [?msg]\<rparr>)"
    by (simp add: enabled_on_simps scripted_transfer script_transfer_def script_def)
  have "up_rtc_settime scripted (enabled_on ?bus) ?ts =
      Some (OK, enabled_on \<lparr>replies = [], transfers = [?msg]\<rparr>)"
    using settime_single [OF enabled_on_simps(1) cal r]
    by (simp add: w scripted_seconds_mask rx_of_def enabled_on_simps)
  then have "up_rtc_settime scripted (enabled_on ?bus) ?ts =
      Some (OK, enabled_on \<lparr>replies = [],
        transfers = [settime_msg scripted [0x00, 0x00, 0x59, 0x59, 0x23, 0x31, 0x05, 0x12, 0x31]]\<rparr>)"
    by (simp only: scripted_buffer_1999)
  then show ?thesis
    by (simp add: w settime_msg_def scripted_def pcf85263a_def PCF85263_I2C_ADDRESS_def)
qed

subsection \<open>The fields of the returned time\<close>

text \<open>What each field of the output is after the loop.\<close>

lemma getdatetime_format_fields:
  "tm_sec (getdatetime_format p b tp) = rtc_bcd2bin (b 0 AND PCF85263_RTC_SECONDS_MASK p)"
  "tm_min (getdatetime_format p b tp) = rtc_bcd2bin (b 1 AND PCF85263_RTC_MINUTES_MASK p)"
  "tm_hour (getdatetime_format p b tp) = rtc_bcd2bin (b 2 AND PCF85263_RTC_HOURS24_MASK p)"
  "tm_mday (getdatetime_format p b tp) = rtc_bcd2bin (b 3 AND PCF85263_RTC_DAYS_MASK p)"
  "tm_mon (getdatetime_format p b tp) = rtc_bcd2bin (b 5 AND PCF85263_RTC_MONTHS_MASK p) - 1"
  "tm_year (getdatetime_format p b tp) = rtc_bcd2bin (b 6) + 68"
  "tm_wday (getdatetime_format p b tp) =
     (if wday_tracked p then rtc_bcd2bin (b 4) AND uint (PCF85263_RTC_WEEKDAYS_MASK p)
      else tm_wday tp)"
  "tm_yday (getdatetime_format p b tp) = tm_yday tp"
  "tm_isdst (getdatetime_format p b tp) = tm_isdst tp"
  by (simp_all add: getdatetime_format_def Let_def)

text \<open>
  C8: the claim has every field, the day of the week among them, masked before it is
  decoded. The code masks the seconds, minutes, hours, day of the month and month before
  decoding, as the lemma above states, but decodes the weekday byte first and masks the
  decoded number: for the weekday byte 0x10 it returns the weekday 10 AND 7 = 2, where
  masking the byte first gives 0.
\<close>

theorem getdatetime_weekday_masked_after_decoding:
  "up_rtc_getdatetime scripted
     (enabled_on (script [(0, [[], [0x00, 0x00, 0x00, 0x01, 0x10, 0x01, 0x32], [], [0x00]])]))
     stale_tm =
   Some (OK,
         \<lparr>tm_sec = 0, tm_min = 0, tm_hour = 0, tm_mday = 1, tm_mon = 0, tm_year = 100,
          tm_wday = 2, tm_yday = - 1, tm_isdst = - 1\<rparr>,
         enabled_on \<lparr>replies = [], transfers = [getdatetime_msg scripted]\<rparr>) \<and>
   rtc_bcd2bin (0x10 AND PCF85263_RTC_WEEKDAYS_MASK scripted) = 0"
proof -
  let ?xs = "[[], [0x00, 0x00, 0x00, 0x01, 0x10, 0x01, 0x32], [], [0x00]] :: u8 list list"
  let ?bus = "script [(0, ?xs)]"
  let ?msg = "getdatetime_msg scripted"
  have r: "I2C_TRANSFER scripted (i2c (g_pcf85263 (enabled_on ?bus))) ?msg =
      (0, rx_of ?xs, \<lparr>replies = [], transfers = [?msg]\<rparr>)"
    by (simp add: enabled_on_simps scripted_transfer script_transfer_def script_def)
  have fmt: "getdatetime_format scripted (rx_of ?xs 1) stale_tm =
      \<lparr>tm_sec = 0, tm_min = 0, tm_hour = 0, tm_mday = 1, tm_mon = 0, tm_year = 100,
       tm_wday = 2, tm_yday = - 1, tm_isdst = - 1\<rparr>"
    by (simp add: getdatetime_format_def scripted_def pcf85263a_def wday_tracked_def
        rx_of_def stale_tm_def rtc_bcd2bin_def)
  have "up_rtc_getdatetime scripted (enabled_on ?bus) stale_tm =
      Some (OK, getdatetime_format scripted (rx_of ?xs 1) stale_tm,
            enabled_on \<lparr>replies = [], transfers = [?msg]\<rparr>)"
    using getdatetime_single [OF enabled_on_simps(1) r, of stale_tm]
    by (simp add: scripted_seconds_mask rx_of_def enabled_on_simps)
  moreover have "rtc_bcd2bin (0x10 AND PCF85263_RTC_WEEKDAYS_MASK scripted) = 0"
    by (simp add: scripted_def pcf85263a_def rtc_bcd2bin_def)
  ultimately show ?thesis
    by (simp only: fmt)
qed

end
